theory Spec2Isabelle
  imports Main
begin

section \<open>The Tidal search view of Strawberry: a shallow embedding\<close>

text \<open>
  The development follows \<^verbatim>\<open>src/tidal/tidalsearchview.cpp\<close>. The view is a Qt widget
  whose slots run on one thread, one after the other, so every slot is a function from
  the state of the view (and of the objects it owns or talks to) to the new state.

  The two result models and their two sort proxies are heap objects that the view reaches
  through pointers (\<^verbatim>\<open>front_model_\<close>, \<^verbatim>\<open>back_model_\<close>, \<^verbatim>\<open>current_model_\<close>, and the same
  for the proxies). The record fields carry the names of the members without the trailing
  underscore. The pointers alias each other, and \<^verbatim>\<open>SwapModels\<close> exchanges pointers,
  not contents, so the objects live in an explicit store indexed by pointer.

  Widgets that only decorate the window (menus, icons, palettes, fonts, radio buttons,
  the check marks of the group-by actions, the context menu, focus handling) are left
  out, as are \<^verbatim>\<open>LazyLoadArt\<close>, \<^verbatim>\<open>ArtLoaded\<close> and \<^verbatim>\<open>SelectedMimeData\<close>, which walk the
  item tree of a model whose class is not part of the sources at hand.
\<close>

subsection \<open>Strings\<close>

text \<open>
  A \<^verbatim>\<open>QString\<close> is modelled as a list of 8-bit characters (the Latin-1 range).
  \<^verbatim>\<open>QChar::isSpace\<close> holds there for the characters 9 to 13, the space 32, the next-line
  character 133 and the no-break space 160; \<^verbatim>\<open>QString::trimmed\<close> removes such characters
  from both ends.
\<close>

type_synonym QString = string

definition isSpace :: "char \<Rightarrow> bool" where
  "isSpace c =
     (let n = (of_char c :: nat) in n = 32 \<or> (9 \<le> n \<and> n \<le> 13) \<or> n = 133 \<or> n = 160)"

definition trimmed :: "QString \<Rightarrow> QString" where
  "trimmed s = rev (dropWhile isSpace (rev (dropWhile isSpace s)))"

subsection \<open>Enumerations and settings\<close>

text \<open>
  \<^verbatim>\<open>TidalSettingsPage::SearchBy\<close> and \<^verbatim>\<open>CollectionModel::GroupBy\<close> are enumerations
  declared outside the sources at hand; the constructors below are the enumerators that
  \<^verbatim>\<open>tidalsearchview.cpp\<close> names. A \<^verbatim>\<open>CollectionModel::Grouping\<close> is a triple of them.
\<close>

datatype SearchBy = SearchBy_Songs | SearchBy_Albums

datatype GroupBy =
    GroupBy_None
  | GroupBy_Artist
  | GroupBy_Album
  | GroupBy_AlbumArtist
  | GroupBy_YearAlbum
  | GroupBy_OriginalYearAlbum

record Grouping =
  first :: GroupBy
  second :: GroupBy
  third :: GroupBy

text \<open>
  \<^verbatim>\<open>QSettings\<close>, restricted to the keys of the Tidal group that the view both reads
  and writes (\<^verbatim>\<open>searchby\<close>, \<^verbatim>\<open>group_by1\<close>, \<^verbatim>\<open>group_by2\<close>, \<^verbatim>\<open>group_by3\<close>). The key
  \<^verbatim>\<open>pretty_covers\<close> only reaches the rendering of covers and is left out. A key that was never written is \<open>None\<close> and reads as the default given at the
  call. The casts between an enumerator and its \<^verbatim>\<open>int\<close> are the encoding of the stored
  value and are not modelled.
\<close>

record QSettings =
  key_searchby :: "SearchBy option"
  key_group_by1 :: "GroupBy option"
  key_group_by2 :: "GroupBy option"
  key_group_by3 :: "GroupBy option"

definition setting_value :: "'a option \<Rightarrow> 'a \<Rightarrow> 'a" where
  "setting_value stored dflt = (case stored of None \<Rightarrow> dflt | Some v \<Rightarrow> v)"

subsection \<open>The search engine\<close>

text \<open>
  \<^verbatim>\<open>TidalSearch\<close> (\<^verbatim>\<open>tidalsearch.h\<close>) is not part of the sources at hand. The view calls
  \<^verbatim>\<open>CancelSearch\<close> and \<^verbatim>\<open>SearchAsync\<close> on it and receives its \<^verbatim>\<open>AddResults\<close> and
  \<^verbatim>\<open>SearchError\<close> signals later, through queued connections. The engine is modelled as
  the log of the requests made to it and the next identifier it will hand out.
\<close>

datatype request = Cancel int | Search QString SearchBy int

record TidalSearch =
  next_id :: int
  requests :: "request list"

definition CancelSearch :: "int \<Rightarrow> TidalSearch \<Rightarrow> TidalSearch" where
  \<comment> \<open>Modelled from the spec: \<^verbatim>\<open>TidalSearch::CancelSearch\<close> is missing from the sources.
     The spec gives the engine \<^verbatim>\<open>cancel(request_id)\<close>, advisory and idempotent; the
     model records the request.\<close>
  "CancelSearch sid e = e\<lparr>requests := requests e @ [Cancel sid]\<rparr>"

definition SearchAsync :: "QString \<Rightarrow> SearchBy \<Rightarrow> TidalSearch \<Rightarrow> int \<times> TidalSearch" where
  \<comment> \<open>Modelled from the spec: \<^verbatim>\<open>TidalSearch::SearchAsync\<close> is missing from the sources.
     The spec gives the engine \<^verbatim>\<open>search_async(query, mode) -> request_id\<close>, the
     identifiers being integers that increase monotonically and are never reused.\<close>
  "SearchAsync query mode e =
     (next_id e,
      e\<lparr>next_id := next_id e + 1, requests := requests e @ [Search query mode (next_id e)]\<rparr>)"

fun issued :: "request list \<Rightarrow> int list" where
  "issued [] = []"
| "issued (Cancel _ # rs) = issued rs"
| "issued (Search _ _ i # rs) = i # issued rs"

fun searches :: "request list \<Rightarrow> request list" where
  "searches [] = []"
| "searches (Cancel _ # rs) = searches rs"
| "searches (Search q m i # rs) = Search q m i # searches rs"

definition engine_wf :: "TidalSearch \<Rightarrow> bool" where
  "engine_wf e = list_all (\<lambda>i. i < next_id e) (issued (requests e))"

subsection \<open>The result models, their proxies, the timer and the widgets\<close>

text \<open>
  \<^verbatim>\<open>TidalSearchModel\<close> (\<^verbatim>\<open>tidalsearchmodel.h\<close>) is not part of the sources at hand. The
  spec describes it as a result container: an ordered sequence of result records, shown
  under a grouping. A result record is modelled by its title.
\<close>

type_synonym Result = string

record TidalSearchModel =
  results :: "Result list"
  group_by :: Grouping

definition TidalSearchModel_new :: TidalSearchModel where
  \<comment> \<open>Modelled from the spec: the constructor of \<^verbatim>\<open>TidalSearchModel\<close> is missing from the
     sources. The spec has the containers created once, at construction, and filled
     later; the grouping is overwritten by \<^verbatim>\<open>ReloadSettings\<close> before the constructor of
     the view returns.\<close>
  "TidalSearchModel_new =
     \<lparr>results = [],
      group_by = \<lparr>first = GroupBy_None, second = GroupBy_None, third = GroupBy_None\<rparr>\<rparr>"

definition model_Clear :: "TidalSearchModel \<Rightarrow> TidalSearchModel" where
  \<comment> \<open>Modelled from the spec: \<^verbatim>\<open>TidalSearchModel::Clear\<close> is missing from the sources.
     The spec: containers are never destroyed, only cleared and refilled.\<close>
  "model_Clear m = m\<lparr>results := []\<rparr>"

definition model_AddResults :: "Result list \<Rightarrow> TidalSearchModel \<Rightarrow> TidalSearchModel" where
  \<comment> \<open>Modelled from the spec: \<^verbatim>\<open>TidalSearchModel::AddResults\<close> is missing from the
     sources. The spec: the container holds an ordered sequence of result records and
     accumulates the results of the query in flight.\<close>
  "model_AddResults rs m = m\<lparr>results := results m @ rs\<rparr>"

definition model_SetGroupBy :: "Grouping \<Rightarrow> bool \<Rightarrow> TidalSearchModel \<Rightarrow> TidalSearchModel" where
  \<comment> \<open>Modelled from the spec: \<^verbatim>\<open>TidalSearchModel::SetGroupBy\<close> is missing from the
     sources. The spec: the grouping is applied identically to both containers and
     regrouping loses no accumulated result. The second argument is the flag the view
     passes (\<^verbatim>\<open>true\<close> for the front model, \<^verbatim>\<open>false\<close> for the back model); neither the
     sources at hand nor the spec say what it selects, so the model does not depend on
     it.\<close>
  "model_SetGroupBy g flag m = m\<lparr>group_by := g\<rparr>"

datatype model_ptr = model_1 | model_2

datatype proxy_ptr = proxy_1 | proxy_2

text \<open>
  \<^verbatim>\<open>TidalSearchSortModel\<close> is a \<^verbatim>\<open>QSortFilterProxyModel\<close>; what matters here is the model
  it presents (\<^verbatim>\<open>setSourceModel\<close>).
\<close>

record TidalSearchSortModel =
  sourceModel :: "model_ptr option"

text \<open>
  \<^verbatim>\<open>QTimer\<close>: \<^verbatim>\<open>start()\<close> starts the timer, or restarts it when it is running, with the
  time-out of its \<^verbatim>\<open>interval\<close>; \<^verbatim>\<open>stop()\<close> stops it. \<open>remaining\<close> is \<open>None\<close> for a
  timer that is not running and the milliseconds it was started with otherwise.
\<close>

record QTimer =
  singleShot :: bool
  interval :: int
  remaining :: "int option"

definition timer_start :: "QTimer \<Rightarrow> QTimer" where
  "timer_start t = t\<lparr>remaining := Some (interval t)\<rparr>"

definition timer_stop :: "QTimer \<Rightarrow> QTimer" where
  "timer_stop t = t\<lparr>remaining := None\<rparr>"

definition isActive :: "QTimer \<Rightarrow> bool" where
  "isActive t = (remaining t \<noteq> None)"

datatype page = help_page | results_page

text \<open>
  The widgets of \<^verbatim>\<open>Ui_TidalSearchView\<close> that carry state of the search: the text of the
  search field, the help label, the page that the stacked widget shows and the model set
  on the results view.
\<close>

record Ui_TidalSearchView =
  search_text :: QString
  label_helptext :: QString
  results_stack :: page
  results_model :: "proxy_ptr option"

datatype QModelIndex = QModelIndex int int

subsection \<open>The view\<close>

definition kSwapModelsTimeoutMsec :: int where
  \<comment> \<open>line 65\<close>
  "kSwapModelsTimeoutMsec = 250"

record TidalSearchView =
  engine :: TidalSearch
  settings :: QSettings
  ui :: Ui_TidalSearchView
  models :: "model_ptr \<Rightarrow> TidalSearchModel"
  proxies :: "proxy_ptr \<Rightarrow> TidalSearchSortModel"
  last_search_id :: int
  front_model :: model_ptr
  back_model :: model_ptr
  current_model :: model_ptr
  front_proxy :: proxy_ptr
  back_proxy :: proxy_ptr
  current_proxy :: proxy_ptr
  swap_models_timer :: QTimer
  art_requests :: "int \<rightharpoonup> QModelIndex"
  searchby :: SearchBy
  error :: bool

definition SetGroupBy :: "Grouping \<Rightarrow> TidalSearchView \<Rightarrow> TidalSearchView" where
  \<comment> \<open>lines 496 to 512; the check marks of the group-by actions (lines 514 to 525) are left out\<close>
  "SetGroupBy g s =
     (let s1 = s\<lparr>art_requests := Map.empty\<rparr>;
          s2 = s1\<lparr>models := fun_upd (models s1) (front_model s1)
                             (model_SetGroupBy g True (models s1 (front_model s1)))\<rparr>;
          s3 = s2\<lparr>models := fun_upd (models s2) (back_model s2)
                             (model_SetGroupBy g False (models s2 (back_model s2)))\<rparr>
      in s3\<lparr>settings := (settings s3)
              \<lparr>key_group_by1 := Some (first g),
               key_group_by2 := Some (second g),
               key_group_by3 := Some (third g)\<rparr>\<rparr>)"

definition ReloadSettings :: "TidalSearchView \<Rightarrow> TidalSearchView" where
  \<comment> \<open>lines 160 to 191\<close>
  "ReloadSettings s =
     (let s1 = s\<lparr>searchby := setting_value (key_searchby (settings s)) SearchBy_Songs\<rparr>
      in SetGroupBy
           \<lparr>first = setting_value (key_group_by1 (settings s1)) GroupBy_Artist,
            second = setting_value (key_group_by2 (settings s1)) GroupBy_Album,
            third = setting_value (key_group_by3 (settings s1)) GroupBy_None\<rparr> s1)"

definition TextEdited :: "QString \<Rightarrow> TidalSearchView \<Rightarrow> TidalSearchView" where
  \<comment> \<open>lines 204 to 227\<close>
  "TextEdited text s =
     (let s1 = s\<lparr>error := False\<rparr>;
          s2 = s1\<lparr>models := fun_upd (models s1) (back_model s1)
                             (model_Clear (models s1 (back_model s1)))\<rparr>;
          s3 = s2\<lparr>current_model := back_model s2\<rparr>;
          s4 = s3\<lparr>current_proxy := back_proxy s3\<rparr>;
          s5 = s4\<lparr>swap_models_timer := timer_start (swap_models_timer s4)\<rparr>;
          s6 = s5\<lparr>engine := CancelSearch (last_search_id s5) (engine s5)\<rparr>
      in if trimmed text = []
         then s6\<lparr>last_search_id := - 1,
                 ui := (ui s6)\<lparr>label_helptext := ''Enter search terms above to find music''\<rparr>\<rparr>
         else (case SearchAsync (trimmed text) (searchby s6) (engine s6) of
                 (sid, e) \<Rightarrow> s6\<lparr>last_search_id := sid, engine := e\<rparr>))"

definition AddResults :: "int \<Rightarrow> Result list \<Rightarrow> TidalSearchView \<Rightarrow> TidalSearchView" where
  \<comment> \<open>lines 229 to 233\<close>
  "AddResults sid rs s =
     (if sid \<noteq> last_search_id s then s
      else if rs = [] then s
      else s\<lparr>models := fun_upd (models s) (current_model s)
                          (model_AddResults rs (models s (current_model s)))\<rparr>)"

definition SearchError :: "int \<Rightarrow> QString \<Rightarrow> TidalSearchView \<Rightarrow> TidalSearchView" where
  \<comment> \<open>lines 235 to 239; the identifier is received and never read\<close>
  "SearchError sid msg s =
     s\<lparr>error := True,
       ui := (ui s)\<lparr>label_helptext := msg, results_stack := help_page\<rparr>\<rparr>"

definition SwapModels :: "TidalSearchView \<Rightarrow> TidalSearchView" where
  \<comment> \<open>lines 241 to 257\<close>
  "SwapModels s =
     (let s1 = s\<lparr>art_requests := Map.empty\<rparr>;
          s2 = s1\<lparr>front_model := back_model s1, back_model := front_model s1\<rparr>;
          s3 = s2\<lparr>front_proxy := back_proxy s2, back_proxy := front_proxy s2\<rparr>;
          s4 = s3\<lparr>ui := (ui s3)\<lparr>results_model := Some (front_proxy s3)\<rparr>\<rparr>
      in if trimmed (search_text (ui s4)) = [] \<or> error s4
         then s4\<lparr>ui := (ui s4)\<lparr>results_stack := help_page\<rparr>\<rparr>
         else s4\<lparr>ui := (ui s4)\<lparr>results_stack := results_page\<rparr>\<rparr>)"

text \<open>
  The search field emits \<^verbatim>\<open>textChanged\<close> when its text changes, whether the user typed
  or \<^verbatim>\<open>setText\<close> was called, and the constructor connects that signal to
  \<^verbatim>\<open>TextEdited\<close> with a direct connection: the slot runs before the change returns.
\<close>

definition search_textChanged :: "QString \<Rightarrow> TidalSearchView \<Rightarrow> TidalSearchView" where
  \<comment> \<open>the connection of line 98\<close>
  "search_textChanged text s = TextEdited text (s\<lparr>ui := (ui s)\<lparr>search_text := text\<rparr>\<rparr>)"

definition search_setText :: "QString \<Rightarrow> TidalSearchView \<Rightarrow> TidalSearchView" where
  "search_setText text s =
     (if search_text (ui s) = text then s else search_textChanged text s)"

definition StartSearch :: "QString \<Rightarrow> TidalSearchView \<Rightarrow> TidalSearchView" where
  \<comment> \<open>lines 193 to 202\<close>
  "StartSearch query s =
     (let s1 = search_setText query s;
          s2 = TextEdited query s1;
          s3 = s2\<lparr>swap_models_timer := timer_stop (swap_models_timer s2)\<rparr>
      in SwapModels s3)"

definition SetSearchBy :: "SearchBy \<Rightarrow> TidalSearchView \<Rightarrow> TidalSearchView" where
  \<comment> \<open>lines 537 to 544\<close>
  "SetSearchBy mode s =
     (let s1 = s\<lparr>searchby := mode\<rparr>;
          s2 = s1\<lparr>settings := (settings s1)\<lparr>key_searchby := Some mode\<rparr>\<rparr>
      in TextEdited (search_text (ui s2)) s2)"

text \<open>
  The time-out of \<^verbatim>\<open>swap_models_timer_\<close> is connected to \<^verbatim>\<open>SwapModels\<close>. A single-shot
  timer stops when it fires; a timer that is not running does not fire.
\<close>

definition swap_models_timer_timeout :: "TidalSearchView \<Rightarrow> TidalSearchView" where
  \<comment> \<open>the connection of line 134\<close>
  "swap_models_timer_timeout s =
     (if isActive (swap_models_timer s)
      then SwapModels
             (if singleShot (swap_models_timer s)
              then s\<lparr>swap_models_timer := timer_stop (swap_models_timer s)\<rparr>
              else s)
      else s)"

text \<open>
  The constructor: the member initialisers, the links between models and proxies, the
  help page shown first, the set-up of the timer and the final \<^verbatim>\<open>ReloadSettings\<close>. Its
  arguments are the engine of the application, the stored settings and the widgets as
  \<^verbatim>\<open>setupUi\<close> built them.
\<close>

definition TidalSearchView_new ::
  "TidalSearch \<Rightarrow> QSettings \<Rightarrow> Ui_TidalSearchView \<Rightarrow> TidalSearchView" where
  \<comment> \<open>lines 67 to 156\<close>
  "TidalSearchView_new app_engine stored widgets =
     ReloadSettings
       \<lparr>engine = app_engine,
        settings = stored,
        ui = widgets\<lparr>results_stack := help_page\<rparr>,
        models = (\<lambda>_. TidalSearchModel_new),
        proxies = (\<lambda>_. \<lparr>sourceModel = None\<rparr>)
                    (proxy_1 := \<lparr>sourceModel = Some model_1\<rparr>,
                     proxy_2 := \<lparr>sourceModel = Some model_2\<rparr>),
        last_search_id = 0,
        front_model = model_1,
        back_model = model_2,
        current_model = model_1,
        front_proxy = proxy_1,
        back_proxy = proxy_2,
        current_proxy = proxy_1,
        swap_models_timer =
          \<lparr>singleShot = True, interval = kSwapModelsTimeoutMsec, remaining = None\<rparr>,
        art_requests = Map.empty,
        searchby = SearchBy_Songs,
        error = False\<rparr>"

subsection \<open>Events and runs\<close>

datatype event =
    Typed QString
  | SearchNow QString
  | Results int "Result list"
  | Error int QString
  | Timeout
  | Regroup Grouping
  | SearchByClicked SearchBy
  | SettingsChanged

fun handle :: "event \<Rightarrow> TidalSearchView \<Rightarrow> TidalSearchView" where
  "handle (Typed text) s = search_textChanged text s"
| "handle (SearchNow query) s = StartSearch query s"
| "handle (Results sid rs) s = AddResults sid rs s"
| "handle (Error sid msg) s = SearchError sid msg s"
| "handle Timeout s = swap_models_timer_timeout s"
| "handle (Regroup g) s = SetGroupBy g s"
| "handle (SearchByClicked mode) s = SetSearchBy mode s"
| "handle SettingsChanged s = ReloadSettings s"

fun run :: "event list \<Rightarrow> TidalSearchView \<Rightarrow> TidalSearchView" where
  "run [] s = s"
| "run (ev # evs) s = run evs (handle ev s)"

text \<open>
  What the results view shows: the contents of the model behind the proxy set on it.
\<close>

definition visible :: "TidalSearchView \<Rightarrow> Result list option" where
  "visible s =
     (case results_model (ui s) of
        None \<Rightarrow> None
      | Some p \<Rightarrow>
          (case sourceModel (proxies s p) of
             None \<Rightarrow> None
           | Some m \<Rightarrow> Some (results (models s m))))"

text \<open>
  What the constructor establishes and every slot keeps: the two models and the two
  proxies are distinct objects, each proxy presents the model of the same role, and the
  timer is single-shot with the fixed interval.
\<close>

definition view_inv :: "TidalSearchView \<Rightarrow> bool" where
  "view_inv s =
     (front_model s \<noteq> back_model s \<and>
      front_proxy s \<noteq> back_proxy s \<and>
      sourceModel (proxies s (front_proxy s)) = Some (front_model s) \<and>
      sourceModel (proxies s (back_proxy s)) = Some (back_model s) \<and>
      singleShot (swap_models_timer s) \<and>
      interval (swap_models_timer s) = kSwapModelsTimeoutMsec)"

text \<open>The three states of the presenter, read off the view.\<close>

definition populating :: "TidalSearchView \<Rightarrow> bool" where
  "populating s =
     (isActive (swap_models_timer s) \<and> current_model s = back_model s)"

subsection \<open>Concrete states\<close>

text \<open>
  A fresh engine whose first identifier is 1, empty settings and freshly built widgets;
  the view as constructed from them; the view after the user typed \<open>a\<close> and then
  \<open>ab\<close>; the view that shows the results of \<open>a\<close> while the search for \<open>ab\<close>
  is in flight; and the view after the user typed \<open>jazz\<close> and two tracks arrived,
  before the timer fires.
\<close>

definition engine0 :: TidalSearch where
  "engine0 = \<lparr>next_id = 1, requests = []\<rparr>"

definition settings0 :: QSettings where
  "settings0 =
     \<lparr>key_searchby = None, key_group_by1 = None, key_group_by2 = None, key_group_by3 = None\<rparr>"

definition widgets0 :: Ui_TidalSearchView where
  "widgets0 =
     \<lparr>search_text = [], label_helptext = [], results_stack = help_page, results_model = None\<rparr>"

definition view0 :: TidalSearchView where
  "view0 = TidalSearchView_new engine0 settings0 widgets0"

definition view_ab :: TidalSearchView where
  "view_ab = run [Typed ''a'', Typed ''ab''] view0"

definition view_shown :: TidalSearchView where
  "view_shown = run [Typed ''a'', Results 1 [''Song A''], Timeout, Typed ''ab''] view0"

definition view_jazz :: TidalSearchView where
  "view_jazz = run [Typed ''jazz'', Results 1 [''Track A'', ''Track B'']] view0"

lemmas slot_defs = TextEdited_def AddResults_def SearchError_def SwapModels_def SetGroupBy_def
  ReloadSettings_def search_textChanged_def search_setText_def StartSearch_def SetSearchBy_def
  swap_models_timer_timeout_def TidalSearchView_new_def

lemmas part_defs = CancelSearch_def SearchAsync_def model_Clear_def model_AddResults_def
  model_SetGroupBy_def TidalSearchModel_new_def timer_start_def timer_stop_def isActive_def
  setting_value_def kSwapModelsTimeoutMsec_def trimmed_def isSpace_def

lemmas state_defs = engine0_def settings0_def widgets0_def view0_def

section \<open>Properties\<close>

subsection \<open>What each slot does to each member\<close>

lemma issued_append: "issued (xs @ ys) = issued xs @ issued ys"
  by (induction xs rule: issued.induct) simp_all

lemma searches_append: "searches (xs @ ys) = searches xs @ searches ys"
  by (induction xs rule: searches.induct) simp_all

lemma run_append: "run (xs @ ys) s = run ys (run xs s)"
  by (induction xs arbitrary: s) simp_all

lemma TextEdited_fields:
  "front_model (TextEdited text s) = front_model s"
  "back_model (TextEdited text s) = back_model s"
  "front_proxy (TextEdited text s) = front_proxy s"
  "back_proxy (TextEdited text s) = back_proxy s"
  "current_model (TextEdited text s) = back_model s"
  "current_proxy (TextEdited text s) = back_proxy s"
  "proxies (TextEdited text s) = proxies s"
  "art_requests (TextEdited text s) = art_requests s"
  "settings (TextEdited text s) = settings s"
  "searchby (TextEdited text s) = searchby s"
  "error (TextEdited text s) = False"
  "search_text (ui (TextEdited text s)) = search_text (ui s)"
  "results_stack (ui (TextEdited text s)) = results_stack (ui s)"
  "results_model (ui (TextEdited text s)) = results_model (ui s)"
  "swap_models_timer (TextEdited text s) = timer_start (swap_models_timer s)"
  "models (TextEdited text s) =
     (models s)(back_model s := model_Clear (models s (back_model s)))"
  by (simp_all add: TextEdited_def Let_def SearchAsync_def)

lemma TextEdited_empty:
  assumes "trimmed text = []"
  shows "last_search_id (TextEdited text s) = - 1"
    and "engine (TextEdited text s) = CancelSearch (last_search_id s) (engine s)"
    and "label_helptext (ui (TextEdited text s)) = ''Enter search terms above to find music''"
  using assms by (simp_all add: TextEdited_def Let_def)

lemma TextEdited_nonempty:
  assumes "trimmed text \<noteq> []"
  shows "last_search_id (TextEdited text s) = next_id (engine s)"
    and "engine (TextEdited text s) =
           snd (SearchAsync (trimmed text) (searchby s) (CancelSearch (last_search_id s) (engine s)))"
    and "label_helptext (ui (TextEdited text s)) = label_helptext (ui s)"
  using assms by (simp_all add: TextEdited_def Let_def SearchAsync_def CancelSearch_def)

lemma SwapModels_fields:
  "front_model (SwapModels s) = back_model s"
  "back_model (SwapModels s) = front_model s"
  "front_proxy (SwapModels s) = back_proxy s"
  "back_proxy (SwapModels s) = front_proxy s"
  "current_model (SwapModels s) = current_model s"
  "current_proxy (SwapModels s) = current_proxy s"
  "models (SwapModels s) = models s"
  "proxies (SwapModels s) = proxies s"
  "engine (SwapModels s) = engine s"
  "settings (SwapModels s) = settings s"
  "last_search_id (SwapModels s) = last_search_id s"
  "swap_models_timer (SwapModels s) = swap_models_timer s"
  "searchby (SwapModels s) = searchby s"
  "error (SwapModels s) = error s"
  "art_requests (SwapModels s) = Map.empty"
  "search_text (ui (SwapModels s)) = search_text (ui s)"
  "label_helptext (ui (SwapModels s)) = label_helptext (ui s)"
  "results_model (ui (SwapModels s)) = Some (back_proxy s)"
  "results_stack (ui (SwapModels s)) =
     (if trimmed (search_text (ui s)) = [] \<or> error s then help_page else results_page)"
  by (simp_all add: SwapModels_def Let_def)

lemma SetGroupBy_fields:
  "front_model (SetGroupBy g s) = front_model s"
  "back_model (SetGroupBy g s) = back_model s"
  "front_proxy (SetGroupBy g s) = front_proxy s"
  "back_proxy (SetGroupBy g s) = back_proxy s"
  "current_model (SetGroupBy g s) = current_model s"
  "current_proxy (SetGroupBy g s) = current_proxy s"
  "proxies (SetGroupBy g s) = proxies s"
  "engine (SetGroupBy g s) = engine s"
  "ui (SetGroupBy g s) = ui s"
  "last_search_id (SetGroupBy g s) = last_search_id s"
  "swap_models_timer (SetGroupBy g s) = swap_models_timer s"
  "searchby (SetGroupBy g s) = searchby s"
  "error (SetGroupBy g s) = error s"
  "art_requests (SetGroupBy g s) = Map.empty"
  "models (SetGroupBy g s) =
     (models s)(front_model s := model_SetGroupBy g True (models s (front_model s)),
                back_model s := model_SetGroupBy g False
                  (((models s)(front_model s := model_SetGroupBy g True (models s (front_model s))))
                     (back_model s)))"
  by (simp_all add: SetGroupBy_def Let_def)

subsection \<open>The invariant of the view\<close>

lemma view_inv_TextEdited: "view_inv s \<Longrightarrow> view_inv (TextEdited text s)"
  by (simp add: view_inv_def TextEdited_fields timer_start_def)

lemma view_inv_SwapModels: "view_inv s \<Longrightarrow> view_inv (SwapModels s)"
  by (auto simp add: view_inv_def SwapModels_fields)

lemma view_inv_SetGroupBy: "view_inv s \<Longrightarrow> view_inv (SetGroupBy g s)"
  by (simp add: view_inv_def SetGroupBy_fields)

lemma view_inv_AddResults: "view_inv s \<Longrightarrow> view_inv (AddResults sid rs s)"
  by (simp add: view_inv_def AddResults_def)

lemma view_inv_SearchError: "view_inv s \<Longrightarrow> view_inv (SearchError sid msg s)"
  by (simp add: view_inv_def SearchError_def)

lemma view_inv_handle: "view_inv s \<Longrightarrow> view_inv (handle ev s)"
proof (cases ev)
  case (Typed q)
  assume "view_inv s"
  then have "view_inv (s\<lparr>ui := (ui s)\<lparr>search_text := q\<rparr>\<rparr>)"
    by (simp add: view_inv_def)
  then show ?thesis
    using Typed by (simp add: search_textChanged_def view_inv_TextEdited)
next
  case (SearchNow query)
  assume inv: "view_inv s"
  have a: "view_inv (search_setText query s)"
  proof -
    from inv have "view_inv (s\<lparr>ui := (ui s)\<lparr>search_text := query\<rparr>\<rparr>)"
      by (simp add: view_inv_def)
    with inv show ?thesis
      by (simp add: search_setText_def search_textChanged_def view_inv_TextEdited)
  qed
  have b: "view_inv t \<Longrightarrow> view_inv (t\<lparr>swap_models_timer := timer_stop (swap_models_timer t)\<rparr>)" for t
    by (simp add: view_inv_def timer_stop_def)
  show ?thesis
    using SearchNow a
    by (simp add: StartSearch_def Let_def view_inv_SwapModels b view_inv_TextEdited)
next
  case (Results sid rs)
  assume "view_inv s"
  then show ?thesis using Results by (simp add: view_inv_AddResults)
next
  case (Error sid msg)
  assume "view_inv s"
  then show ?thesis using Error by (simp add: view_inv_SearchError)
next
  case Timeout
  assume inv: "view_inv s"
  then have "view_inv (s\<lparr>swap_models_timer := timer_stop (swap_models_timer s)\<rparr>)"
    by (simp add: view_inv_def timer_stop_def)
  with inv show ?thesis
    using Timeout by (simp add: swap_models_timer_timeout_def view_inv_SwapModels)
next
  case (Regroup g)
  assume "view_inv s"
  then show ?thesis using Regroup by (simp add: view_inv_SetGroupBy)
next
  case (SearchByClicked mode)
  assume "view_inv s"
  then have "view_inv (s\<lparr>searchby := mode, settings := (settings s)\<lparr>key_searchby := Some mode\<rparr>\<rparr>)"
    by (simp add: view_inv_def)
  then show ?thesis
    using SearchByClicked by (simp add: SetSearchBy_def Let_def view_inv_TextEdited)
next
  case SettingsChanged
  assume "view_inv s"
  then have "view_inv (s\<lparr>searchby := m\<rparr>)" for m
    by (simp add: view_inv_def)
  then show ?thesis
    using SettingsChanged by (simp add: ReloadSettings_def Let_def view_inv_SetGroupBy)
qed

lemma view_inv_run: "view_inv s \<Longrightarrow> view_inv (run evs s)"
  by (induction evs arbitrary: s) (simp_all add: view_inv_handle)

lemma view_inv_new: "view_inv (TidalSearchView_new e st w)"
  by (simp add: TidalSearchView_new_def ReloadSettings_def Let_def view_inv_def SetGroupBy_fields)

lemma view_inv_view0: "view_inv view0"
  by (simp add: view0_def view_inv_new)


subsection \<open>The identifiers of the engine\<close>

lemma engine_wf_fresh: "engine_wf e \<Longrightarrow> next_id e \<notin> set (issued (requests e))"
  by (auto simp add: engine_wf_def list_all_iff)

lemma engine_wf_CancelSearch: "engine_wf e \<Longrightarrow> engine_wf (CancelSearch sid e)"
  by (simp add: engine_wf_def CancelSearch_def issued_append)

lemma engine_wf_SearchAsync: "engine_wf e \<Longrightarrow> engine_wf (snd (SearchAsync q m e))"
  by (auto simp add: engine_wf_def SearchAsync_def issued_append list_all_iff)

lemma engine_wf_TextEdited: "engine_wf (engine s) \<Longrightarrow> engine_wf (engine (TextEdited t s))"
  by (cases "trimmed t = []")
     (simp_all add: TextEdited_empty TextEdited_nonempty engine_wf_CancelSearch engine_wf_SearchAsync)

subsection \<open>Results and errors delivered by the engine\<close>

text \<open>
  Claim C1. A result event is applied to a container only when its identifier equals
  \<^verbatim>\<open>last_search_id_\<close>: an event with another identifier leaves the whole state as it
  was, and an event with that identifier and a non-empty list changes nothing but the
  model that \<^verbatim>\<open>current_model_\<close> points to, which receives the results. After a search
  was submitted with text that is not blank, \<^verbatim>\<open>last_search_id_\<close> is the identifier the
  engine issued last.
\<close>
theorem AddResults_only_for_current_id:
  "(sid \<noteq> last_search_id s \<longrightarrow> AddResults sid rs s = s) \<and>
   (sid = last_search_id s \<and> rs \<noteq> [] \<longrightarrow>
      AddResults sid rs s =
        s\<lparr>models := (models s)
             (current_model s := model_AddResults rs (models s (current_model s)))\<rparr>) \<and>
   (trimmed q \<noteq> [] \<longrightarrow>
      last_search_id (TextEdited q s) = last (issued (requests (engine (TextEdited q s)))))"
  by (simp add: AddResults_def TextEdited_nonempty SearchAsync_def CancelSearch_def issued_append)

theorem AddResults_only_for_current_id_witness:
  "(1::int) \<noteq> last_search_id view_ab \<and> AddResults 1 [''Old''] view_ab = view_ab \<and>
   2 = last_search_id view_ab \<and> [''Song X''] \<noteq> ([]::Result list) \<and>
   results (models (AddResults 2 [''Song X''] view_ab) (back_model view_ab)) = [''Song X''] \<and>
   trimmed ''ab'' \<noteq> [] \<and>
   last_search_id (TextEdited ''ab'' (run [Typed ''a''] view0)) = 2 \<and>
   last (issued (requests (engine (TextEdited ''ab'' (run [Typed ''a''] view0))))) = 2"
proof -
  have lid: "last_search_id view_ab = 2"
    by (simp add: view_ab_def state_defs slot_defs part_defs Let_def)
  have cur: "current_model view_ab = back_model view_ab"
    by (simp add: view_ab_def state_defs slot_defs part_defs Let_def)
  have emp: "results (models view_ab (back_model view_ab)) = []"
    by (simp add: view_ab_def state_defs slot_defs part_defs Let_def)
  have tr: "trimmed ''ab'' \<noteq> []"
    by (simp add: trimmed_def isSpace_def)
  have a: "last_search_id (TextEdited ''ab'' (run [Typed ''a''] view0)) = 2"
    by (simp add: view_ab_def state_defs slot_defs part_defs Let_def)
  note inst1 = AddResults_only_for_current_id [of 1 view_ab "[''Old'']" "''ab''"]
  note inst2 = AddResults_only_for_current_id [of 2 view_ab "[''Song X'']" "''ab''"]
  note inst3 = AddResults_only_for_current_id [of 1 "run [Typed ''a''] view0" "[]" "''ab''"]
  from inst1 lid have one: "AddResults 1 [''Old''] view_ab = view_ab" by simp
  from inst2 lid have
    "AddResults 2 [''Song X''] view_ab =
       view_ab\<lparr>models := (models view_ab)
         (current_model view_ab :=
            model_AddResults [''Song X''] (models view_ab (current_model view_ab)))\<rparr>"
    by simp
  then have two:
    "results (models (AddResults 2 [''Song X''] view_ab) (back_model view_ab)) = [''Song X'']"
    using cur emp by (simp add: model_AddResults_def)
  from inst3 tr a have three:
    "last (issued (requests (engine (TextEdited ''ab'' (run [Typed ''a''] view0))))) = 2"
    by simp
  show ?thesis using lid one two tr a three by simp
qed

text \<open>
  Claim C10. A result event with an empty list changes nothing, whatever its identifier:
  the state, and with it every model, is as before.
\<close>
theorem AddResults_empty_list: "AddResults sid [] s = s \<and> models (AddResults sid [] s) = models s"
  by (simp add: AddResults_def)

subsection \<open>The artwork requests\<close>

text \<open>
  Claim C7. Whatever \<^verbatim>\<open>art_requests_\<close> held before, it is empty after a swap
  (\<^verbatim>\<open>SwapModels\<close>, also when reached through \<^verbatim>\<open>StartSearch\<close>) and after a regroup
  (\<^verbatim>\<open>SetGroupBy\<close>, also when reached through \<^verbatim>\<open>ReloadSettings\<close>).
\<close>
theorem art_requests_cleared:
  "art_requests (SwapModels s) = Map.empty \<and>
   art_requests (SetGroupBy g s) = Map.empty \<and>
   art_requests (StartSearch q s) = Map.empty \<and>
   art_requests (ReloadSettings s) = Map.empty"
  by (simp add: SwapModels_fields SetGroupBy_fields StartSearch_def ReloadSettings_def Let_def)

text \<open>
  Claim C2 asks for the staleness check of \<^verbatim>\<open>AddResults\<close> in \<^verbatim>\<open>SearchError\<close> too.
  \<^verbatim>\<open>SearchError\<close> never reads its identifier. In \<open>view_shown\<close> the results of the
  first search are on screen and the outstanding search is number 2; an error for search
  number 1 sets the error flag, replaces the help text and brings the help page up.
\<close>
theorem SearchError_ignores_id:
  "last_search_id view_shown = 2 \<and>
   results_stack (ui view_shown) = results_page \<and>
   \<not> error view_shown \<and>
   SearchError 1 ''boom'' view_shown \<noteq> view_shown \<and>
   error (SearchError 1 ''boom'' view_shown) \<and>
   label_helptext (ui (SearchError 1 ''boom'' view_shown)) = ''boom'' \<and>
   results_stack (ui (SearchError 1 ''boom'' view_shown)) = help_page"
proof -
  have a: "last_search_id view_shown = 2" "results_stack (ui view_shown) = results_page"
    "\<not> error view_shown"
    by (simp_all add: view_shown_def state_defs slot_defs part_defs Let_def)
  have b: "error (SearchError 1 ''boom'' view_shown)"
    "label_helptext (ui (SearchError 1 ''boom'' view_shown)) = ''boom''"
    "results_stack (ui (SearchError 1 ''boom'' view_shown)) = help_page"
    by (simp_all add: SearchError_def)
  from a(3) b(1) have "SearchError 1 ''boom'' view_shown \<noteq> view_shown" by auto
  with a b show ?thesis by simp
qed

lemma SearchError_any_id: "SearchError sid msg s = SearchError sid' msg s"
  by (simp add: SearchError_def)

subsection \<open>Submitting text\<close>

text \<open>
  Claim C3 says that submitting blank text cancels nothing. \<^verbatim>\<open>TextEdited\<close> calls
  \<^verbatim>\<open>CancelSearch\<close> before it looks at the text: in \<open>view_ab\<close>, where search number 2
  is outstanding, two spaces make it ask the engine to cancel number 2.
\<close>
theorem TextEdited_empty_cancels:
  "trimmed ''  '' = [] \<and>
   requests (engine view_ab) =
     [Cancel 0, Search ''a'' SearchBy_Songs 1, Cancel 1, Search ''ab'' SearchBy_Songs 2] \<and>
   requests (engine (TextEdited ''  '' view_ab)) =
     [Cancel 0, Search ''a'' SearchBy_Songs 1, Cancel 1, Search ''ab'' SearchBy_Songs 2, Cancel 2] \<and>
   requests (engine (TextEdited ''  '' view_ab)) \<noteq> requests (engine view_ab)"
  by (simp add: view_ab_def state_defs slot_defs part_defs Let_def)

text \<open>
  Claim C3, amended. Blank text sets \<^verbatim>\<open>last_search_id_\<close> to the sentinel \<open>-1\<close> and
  starts no search, but the previous identifier is still cancelled. Any other text
  cancels the previous identifier and then starts a search for the trimmed text under
  the current search mode; the identifier the engine returns becomes
  \<^verbatim>\<open>last_search_id_\<close>, and it is none of the identifiers issued before when the engine
  hands out increasing identifiers.
\<close>

theorem TextEdited_requests:
  "(trimmed q = [] \<longrightarrow>
      last_search_id (TextEdited q s) = - 1 \<and>
      requests (engine (TextEdited q s)) = requests (engine s) @ [Cancel (last_search_id s)] \<and>
      next_id (engine (TextEdited q s)) = next_id (engine s)) \<and>
   (trimmed q \<noteq> [] \<longrightarrow>
      requests (engine (TextEdited q s)) =
        requests (engine s) @
          [Cancel (last_search_id s), Search (trimmed q) (searchby s) (next_id (engine s))] \<and>
      last_search_id (TextEdited q s) = next_id (engine s) \<and>
      (engine_wf (engine s) \<longrightarrow> last_search_id (TextEdited q s) \<notin> set (issued (requests (engine s)))))"
  by (simp add: TextEdited_empty TextEdited_nonempty CancelSearch_def SearchAsync_def engine_wf_fresh)

text \<open>
  The amended claim at work in \<open>view_ab\<close>: two spaces cancel search number 2 and start
  nothing; \<open>jazz\<close> between spaces cancels number 2 and starts search number 3.
\<close>

theorem TextEdited_requests_witness:
  "trimmed ''  '' = [] \<and>
   last_search_id (TextEdited ''  '' view_ab) = - 1 \<and>
   requests (engine (TextEdited ''  '' view_ab)) = requests (engine view_ab) @ [Cancel 2] \<and>
   next_id (engine (TextEdited ''  '' view_ab)) = 3 \<and>
   trimmed '' jazz '' = ''jazz'' \<and>
   engine_wf (engine view_ab) \<and>
   requests (engine (TextEdited '' jazz '' view_ab)) =
     requests (engine view_ab) @ [Cancel 2, Search ''jazz'' SearchBy_Songs 3] \<and>
   last_search_id (TextEdited '' jazz '' view_ab) = 3 \<and>
   last_search_id (TextEdited '' jazz '' view_ab) \<notin> set (issued (requests (engine view_ab)))"
proof -
  have blank: "trimmed ''  '' = []"
    by (simp add: trimmed_def isSpace_def)
  have jazz: "trimmed '' jazz '' = ''jazz''"
    by (simp add: trimmed_def isSpace_def)
  have st: "last_search_id view_ab = 2" "next_id (engine view_ab) = 3"
    "searchby view_ab = SearchBy_Songs"
    by (simp_all add: view_ab_def state_defs slot_defs part_defs Let_def)
  have wf: "engine_wf (engine view_ab)"
    by (simp add: engine_wf_def view_ab_def state_defs slot_defs part_defs Let_def)
  from TextEdited_requests [of "''  ''" view_ab] blank st
  have one: "last_search_id (TextEdited ''  '' view_ab) = - 1"
    "requests (engine (TextEdited ''  '' view_ab)) = requests (engine view_ab) @ [Cancel 2]"
    "next_id (engine (TextEdited ''  '' view_ab)) = 3"
    by simp_all
  from TextEdited_requests [of "'' jazz ''" view_ab] jazz st wf
  have two: "requests (engine (TextEdited '' jazz '' view_ab)) =
      requests (engine view_ab) @ [Cancel 2, Search ''jazz'' SearchBy_Songs 3]"
    "last_search_id (TextEdited '' jazz '' view_ab) = 3"
    "last_search_id (TextEdited '' jazz '' view_ab) \<notin> set (issued (requests (engine view_ab)))"
    by auto
  show ?thesis using blank jazz wf one two by simp
qed

text \<open>
  Claim C4. When query text arrives, \<^verbatim>\<open>TextEdited\<close> clears the back model and leaves
  the front model alone, points \<^verbatim>\<open>current_model_\<close> and \<^verbatim>\<open>current_proxy_\<close> at the back
  pair, so that the results of the new search land in the back model, and starts the
  single-shot timer again with its interval of 250 milliseconds. The interval and the
  single-shot mode are set by the constructor and kept by every slot (\<open>view_inv\<close>).
\<close>
theorem TextEdited_populates_back:
  "view_inv s \<Longrightarrow>
   back_model (TextEdited q s) = back_model s \<and>
   results (models (TextEdited q s) (back_model s)) = [] \<and>
   models (TextEdited q s) (front_model s) = models s (front_model s) \<and>
   current_model (TextEdited q s) = back_model s \<and>
   current_proxy (TextEdited q s) = back_proxy s \<and>
   (rs \<noteq> [] \<longrightarrow>
      results (models (AddResults (last_search_id (TextEdited q s)) rs (TextEdited q s))
                 (back_model s)) = rs) \<and>
   singleShot (swap_models_timer (TextEdited q s)) \<and>
   remaining (swap_models_timer (TextEdited q s)) = Some kSwapModelsTimeoutMsec \<and>
   kSwapModelsTimeoutMsec = 250"
  by (simp add: view_inv_def TextEdited_fields AddResults_def model_Clear_def
      model_AddResults_def timer_start_def kSwapModelsTimeoutMsec_def)

theorem TextEdited_populates_back_witness:
  "view_inv view_shown \<and>
   results (models view_shown (back_model view_shown)) = [] \<and>
   visible view_shown = Some [''Song A''] \<and>
   results (models (TextEdited ''abc'' view_shown) (back_model view_shown)) = [] \<and>
   models (TextEdited ''abc'' view_shown) (front_model view_shown) =
     models view_shown (front_model view_shown) \<and>
   current_model (TextEdited ''abc'' view_shown) = back_model view_shown \<and>
   results (models (AddResults (last_search_id (TextEdited ''abc'' view_shown)) [''Song X'']
                      (TextEdited ''abc'' view_shown)) (back_model view_shown)) = [''Song X''] \<and>
   remaining (swap_models_timer (TextEdited ''abc'' view_shown)) = Some 250"
proof -
  have a: "results (models view_shown (back_model view_shown)) = []"
    "visible view_shown = Some [''Song A'']"
    by (simp_all add: view_shown_def state_defs slot_defs part_defs Let_def visible_def)
  have inv: "view_inv view_shown"
    by (simp only: view_shown_def view_inv_run view_inv_view0)
  from TextEdited_populates_back [OF inv, of "''abc''" "[''Song X'']"]
  show ?thesis using inv a by simp
qed

subsection \<open>Swapping the models\<close>

text \<open>
  Claim C5. \<^verbatim>\<open>StartSearch\<close> returns with the timer stopped and the swap done: front and
  back have changed places, the results view shows the new front proxy, the search field
  holds the query, and the stacked widget shows the results page, or the help page when
  the query is blank. The model being filled is now the front one.
\<close>
theorem StartSearch_swaps_at_once:
  "remaining (swap_models_timer (StartSearch q s)) = None \<and>
   front_model (StartSearch q s) = back_model s \<and>
   back_model (StartSearch q s) = front_model s \<and>
   front_proxy (StartSearch q s) = back_proxy s \<and>
   back_proxy (StartSearch q s) = front_proxy s \<and>
   current_model (StartSearch q s) = front_model (StartSearch q s) \<and>
   results_model (ui (StartSearch q s)) = Some (front_proxy (StartSearch q s)) \<and>
   search_text (ui (StartSearch q s)) = q \<and>
   results_stack (ui (StartSearch q s)) =
     (if trimmed q = [] then help_page else results_page)"
  by (simp add: StartSearch_def Let_def SwapModels_fields TextEdited_fields
      search_setText_def search_textChanged_def timer_stop_def)

text \<open>
  Claim C6. \<^verbatim>\<open>SwapModels\<close> exchanges the two model pointers and the two proxy pointers
  and touches neither the models nor the proxies themselves. The results view is given
  the new front proxy, so what it shows afterwards is exactly what the back model held
  before the swap.
\<close>
theorem SwapModels_exchanges_roles:
  "front_model (SwapModels s) = back_model s \<and>
   back_model (SwapModels s) = front_model s \<and>
   front_proxy (SwapModels s) = back_proxy s \<and>
   back_proxy (SwapModels s) = front_proxy s \<and>
   models (SwapModels s) = models s \<and>
   proxies (SwapModels s) = proxies s \<and>
   results_model (ui (SwapModels s)) = Some (front_proxy (SwapModels s)) \<and>
   (view_inv s \<longrightarrow> visible (SwapModels s) = Some (results (models s (back_model s))))"
  by (simp add: SwapModels_fields visible_def view_inv_def)

theorem SwapModels_exchanges_roles_witness:
  "view_inv view_jazz \<and>
   results (models view_jazz (back_model view_jazz)) = [''Track A'', ''Track B''] \<and>
   visible view_jazz = None \<and>
   visible (SwapModels view_jazz) = Some [''Track A'', ''Track B'']"
proof -
  have inv: "view_inv view_jazz"
    by (simp only: view_jazz_def view_inv_run view_inv_view0)
  have a: "results (models view_jazz (back_model view_jazz)) = [''Track A'', ''Track B'']"
    "visible view_jazz = None"
    by (simp_all add: view_jazz_def state_defs slot_defs part_defs Let_def visible_def)
  from SwapModels_exchanges_roles [of view_jazz] inv a show ?thesis by simp
qed

subsection \<open>Regrouping\<close>

text \<open>
  Claim C8. While the back model is being filled and the timer is pending, \<^verbatim>\<open>SetGroupBy\<close>
  gives the new grouping to the front and to the back model, keeps the results of both,
  empties \<^verbatim>\<open>art_requests_\<close>, and leaves the view in that same state: same roles, same
  outstanding search, timer still pending.
\<close>
theorem SetGroupBy_while_populating:
  "populating s \<Longrightarrow>
   populating (SetGroupBy g s) \<and>
   front_model (SetGroupBy g s) = front_model s \<and>
   back_model (SetGroupBy g s) = back_model s \<and>
   last_search_id (SetGroupBy g s) = last_search_id s \<and>
   group_by (models (SetGroupBy g s) (front_model s)) = g \<and>
   group_by (models (SetGroupBy g s) (back_model s)) = g \<and>
   results (models (SetGroupBy g s) (back_model s)) = results (models s (back_model s)) \<and>
   results (models (SetGroupBy g s) (front_model s)) = results (models s (front_model s)) \<and>
   art_requests (SetGroupBy g s) = Map.empty"
  by (simp add: populating_def SetGroupBy_fields model_SetGroupBy_def)

theorem SetGroupBy_while_populating_witness:
  "populating view_jazz \<and>
   art_requests (view_jazz\<lparr>art_requests := [7 \<mapsto> QModelIndex 0 0]\<rparr>) 7 = Some (QModelIndex 0 0) \<and>
   populating (view_jazz\<lparr>art_requests := [7 \<mapsto> QModelIndex 0 0]\<rparr>) \<and>
   group_by (models (SetGroupBy \<lparr>first = GroupBy_Album, second = GroupBy_None, third = GroupBy_None\<rparr>
      (view_jazz\<lparr>art_requests := [7 \<mapsto> QModelIndex 0 0]\<rparr>)) (back_model view_jazz)) =
     \<lparr>first = GroupBy_Album, second = GroupBy_None, third = GroupBy_None\<rparr> \<and>
   results (models (SetGroupBy \<lparr>first = GroupBy_Album, second = GroupBy_None, third = GroupBy_None\<rparr>
      (view_jazz\<lparr>art_requests := [7 \<mapsto> QModelIndex 0 0]\<rparr>)) (back_model view_jazz)) =
     [''Track A'', ''Track B''] \<and>
   art_requests (SetGroupBy \<lparr>first = GroupBy_Album, second = GroupBy_None, third = GroupBy_None\<rparr>
      (view_jazz\<lparr>art_requests := [7 \<mapsto> QModelIndex 0 0]\<rparr>)) = Map.empty"
proof -
  have a: "results (models view_jazz (back_model view_jazz)) = [''Track A'', ''Track B'']"
    by (simp add: view_jazz_def state_defs slot_defs part_defs Let_def)
  have p: "populating view_jazz"
    by (simp add: populating_def view_jazz_def state_defs slot_defs part_defs Let_def)
  then have p': "populating (view_jazz\<lparr>art_requests := [7 \<mapsto> QModelIndex 0 0]\<rparr>)"
    by (simp add: populating_def)
  from SetGroupBy_while_populating [OF p',
      of "\<lparr>first = GroupBy_Album, second = GroupBy_None, third = GroupBy_None\<rparr>"]
  show ?thesis using p p' a by simp
qed

subsection \<open>Blank input\<close>

lemma blank_step:
  assumes "trimmed t = []"
  shows "last_search_id (search_textChanged t s) = - 1"
    and "searches (requests (engine (search_textChanged t s))) = searches (requests (engine s))"
    and "next_id (engine (search_textChanged t s)) = next_id (engine s)"
    and "label_helptext (ui (search_textChanged t s)) = ''Enter search terms above to find music''"
    and "isActive (swap_models_timer (search_textChanged t s))"
    and "results_stack (ui (swap_models_timer_timeout (search_textChanged t s))) = help_page"
  using assms
  by (simp_all add: search_textChanged_def TextEdited_empty TextEdited_fields CancelSearch_def
      searches_append isActive_def timer_start_def swap_models_timer_timeout_def SwapModels_fields)

lemma blank_run:
  "\<forall>t\<in>set ts. trimmed t = [] \<Longrightarrow>
   searches (requests (engine (run (map Typed ts) s))) = searches (requests (engine s)) \<and>
   next_id (engine (run (map Typed ts) s)) = next_id (engine s)"
  by (induction ts arbitrary: s) (simp_all add: blank_step)

text \<open>
  Claim C9. Submitting blank text any number of times, each as a change of the search
  field, ends with the sentinel \<open>-1\<close> as outstanding identifier and the standard help
  text, asks the engine for no search (the searches in its log and its next identifier
  are as before), and leaves the timer pending; when the timer fires, the help page is
  shown. No slot of the view has a failing branch, so every run ends in a state.
\<close>

theorem blank_submits_stay_idle:
  assumes "ts \<noteq> []" and "\<forall>t\<in>set ts. trimmed t = []"
  shows "last_search_id (run (map Typed ts) s) = - 1 \<and>
         searches (requests (engine (run (map Typed ts) s))) = searches (requests (engine s)) \<and>
         next_id (engine (run (map Typed ts) s)) = next_id (engine s) \<and>
         label_helptext (ui (run (map Typed ts) s)) = ''Enter search terms above to find music'' \<and>
         isActive (swap_models_timer (run (map Typed ts) s)) \<and>
         results_stack (ui (swap_models_timer_timeout (run (map Typed ts) s))) = help_page"
proof -
  from assms(1) obtain us u where ts: "ts = us @ [u]"
    by (cases ts rule: rev_cases) auto
  with assms(2) have u: "trimmed u = []" by simp
  have last_step: "run (map Typed ts) s = search_textChanged u (run (map Typed us) s)"
    by (simp add: ts run_append)
  show ?thesis
    using blank_run [OF assms(2), of s] blank_step [OF u, of "run (map Typed us) s"]
    by (simp add: last_step)
qed

theorem blank_submits_stay_idle_witness:
  "[[], ''  '', []] \<noteq> ([]::QString list) \<and>
   trimmed [] = [] \<and> trimmed ''  '' = [] \<and>
   results_stack (ui view_shown) = results_page \<and>
   last_search_id (run (map Typed [[], ''  '', []]) view_shown) = - 1 \<and>
   searches (requests (engine (run (map Typed [[], ''  '', []]) view_shown))) =
     [Search ''a'' SearchBy_Songs 1, Search ''ab'' SearchBy_Songs 2] \<and>
   isActive (swap_models_timer (run (map Typed [[], ''  '', []]) view_shown)) \<and>
   results_stack (ui (swap_models_timer_timeout (run (map Typed [[], ''  '', []]) view_shown))) =
     help_page"
proof -
  have tr: "trimmed [] = []" "trimmed ''  '' = []"
    by (simp_all add: trimmed_def isSpace_def)
  then have all: "\<forall>t\<in>set [[], ''  '', []]. trimmed t = []" by simp
  have ne: "[[], ''  '', []] \<noteq> ([]::QString list)" by simp
  have a: "results_stack (ui view_shown) = results_page"
    "searches (requests (engine view_shown)) =
       [Search ''a'' SearchBy_Songs 1, Search ''ab'' SearchBy_Songs 2]"
    by (simp_all add: view_shown_def state_defs slot_defs part_defs Let_def)
  from blank_submits_stay_idle [OF ne all, of view_shown]
  show ?thesis using tr a by simp
qed

end
